theory Spec2Isabelle
  imports Main "HOL-Library.Sublist"
begin

section \<open>JavaScript values used by the language server\<close>

text \<open>
  The server (\<^verbatim>\<open>src/server/src/server.ts\<close>) computes with JavaScript numbers and
  strings. The numbers it meets are doubles with an integer value, \<open>NaN\<close> (what
  \<^verbatim>\<open>parseInt\<close> returns when it finds no digits) and the infinities (\<open>Infinity True\<close> is the
  negative one). \<open>Num n\<close> is the double whose value is the integer \<open>n\<close>; the zeros are
  not told apart. A string is a list of code units; every \<open>char\<close> stands for one UTF-16
  code unit below 256.
\<close>

datatype number = Num int | NaN | Infinity bool

text \<open>
  A double has 53 significant bits. \<open>ulp m\<close> is the distance between neighbouring
  doubles at the magnitude \<open>m\<close>: 1 below \<open>2^53\<close>, 2 below \<open>2^54\<close>, and so on.
\<close>

function ulp :: "nat \<Rightarrow> nat" where
  "ulp m = (if m < 2 ^ 53 then 1 else 2 * ulp (m div 2))"
  by pat_completeness auto
termination
  by (relation "measure id") auto

text \<open>
  The double for an exact integer result: the nearest double, the one with the even
  significand when two are equally near, and an infinity from \<open>2^1024\<close> on.
\<close>

definition roundToDouble :: "int \<Rightarrow> number" where
  "roundToDouble n =
     (let m = nat \<bar>n\<bar>;
          u = ulp m;
          q = m div u;
          r = m mod u;
          q = (if 2 * r < u \<or> (2 * r = u \<and> even q) then q else q + 1);
          v = q * u
      in if 2 ^ 1024 \<le> v then Infinity (n < 0)
         else Num (if n < 0 then - int v else int v))"

text \<open>\<^verbatim>\<open>Number.MAX_VALUE\<close>, the largest finite double.\<close>

definition MAX_VALUE :: number where
  "MAX_VALUE = Num ((2 ^ 53 - 1) * 2 ^ 971)"

text \<open>\<^verbatim>\<open>x - 1\<close>: the exact difference, rounded to a double. \<open>NaN - 1\<close> is \<open>NaN\<close>, and an
  infinity stays what it is.\<close>

fun minus1 :: "number \<Rightarrow> number" where
  "minus1 (Num n) = roundToDouble (n - 1)"
| "minus1 NaN = NaN"
| "minus1 (Infinity s) = Infinity s"

fun isNaN :: "number \<Rightarrow> bool" where
  "isNaN NaN = True"
| "isNaN _ = False"

text \<open>\<^verbatim>\<open>x < 0\<close>: every comparison with \<open>NaN\<close> is false.\<close>

fun lt0 :: "number \<Rightarrow> bool" where
  "lt0 (Num n) = (n < 0)"
| "lt0 NaN = False"
| "lt0 (Infinity s) = s"

subsection \<open>String.prototype.lastIndexOf, String.prototype.substr\<close>

text \<open>\<open>matchAt s p k\<close>: the pattern \<open>p\<close> occurs in \<open>s\<close> at index \<open>k\<close>.\<close>

definition matchAt :: "'a list \<Rightarrow> 'a list \<Rightarrow> nat \<Rightarrow> bool" where
  "matchAt s p k = (take (length p) (drop k s) = p)"

text \<open>The search of \<^verbatim>\<open>lastIndexOf\<close> runs from index \<open>k\<close> down to \<open>0\<close>; the result is
  \<open>-1\<close> when no index matches.\<close>

primrec lastIndexFrom :: "'a list \<Rightarrow> 'a list \<Rightarrow> nat \<Rightarrow> int" where
  "lastIndexFrom s p 0 = (if matchAt s p 0 then 0 else - 1)"
| "lastIndexFrom s p (Suc k) =
     (if matchAt s p (Suc k) then int (Suc k) else lastIndexFrom s p k)"

definition lastIndexOf :: "'a list \<Rightarrow> 'a list \<Rightarrow> int" where
  "lastIndexOf s p =
     (if length p \<le> length s then lastIndexFrom s p (length s - length p) else - 1)"

text \<open>\<^verbatim>\<open>s.substr(start)\<close>: a negative \<open>start\<close> counts from the end of the string, and the
  result is clamped to the string.\<close>

definition substrFrom :: "'a list \<Rightarrow> int \<Rightarrow> 'a list" where
  "substrFrom s start =
     drop (nat (if start < 0 then max (int (length s) + start) 0 else start)) s"

text \<open>\<^verbatim>\<open>s.substr(start, len)\<close>.\<close>

definition substr :: "'a list \<Rightarrow> int \<Rightarrow> int \<Rightarrow> 'a list" where
  "substr s start len = take (nat len) (substrFrom s start)"

subsection \<open>parseInt(string, 10)\<close>

text \<open>The white space that \<^verbatim>\<open>parseInt\<close> skips, among the code units below 256: TAB, LF,
  VT, FF, CR, SPACE and NBSP.\<close>

definition isWhiteSpace :: "char \<Rightarrow> bool" where
  "isWhiteSpace c = ((of_char c :: nat) \<in> {9, 10, 11, 12, 13, 32, 160})"

definition isDigit :: "char \<Rightarrow> bool" where
  "isDigit c = (48 \<le> (of_char c :: nat) \<and> (of_char c :: nat) \<le> 57)"

definition digitValue :: "char \<Rightarrow> nat" where
  "digitValue c = of_char c - 48"

definition mathInt :: "string \<Rightarrow> nat" where
  "mathInt Z = foldl (\<lambda>a c. 10 * a + digitValue c) 0 Z"

text \<open>
  After the sign is taken off: the longest prefix of decimal digits, \<open>NaN\<close> when it is
  empty, and else the double for the signed value of the digits. (ECMAScript lets an
  implementation read the digits after the 20th significant one as zeros; the model
  takes the exact value. The two agree on every numeral of at most 20 digits.)
\<close>

definition parseDigits :: "int \<Rightarrow> string \<Rightarrow> number" where
  "parseDigits sign S =
     (let Z = takeWhile isDigit S
      in if Z = [] then NaN else roundToDouble (sign * int (mathInt Z)))"

definition parseInt :: "string \<Rightarrow> number" where
  "parseInt string =
     (case dropWhile isWhiteSpace string of
        [] \<Rightarrow> NaN
      | c # S \<Rightarrow>
          if c = CHR ''-'' then parseDigits (- 1) S
          else if c = CHR ''+'' then parseDigits 1 S
          else parseDigits 1 (c # S))"

subsection \<open>Decimal numerals\<close>

text \<open>The decimal numeral of a natural number, as it stands in an error message
  (\<^verbatim>\<open>Line 5 column 3\<close>): the claims about parsed line and column numbers are stated
  with it.\<close>

definition digitChar :: "nat \<Rightarrow> char" where
  "digitChar d = char_of (48 + d)"

fun decimal :: "nat \<Rightarrow> string" where
  "decimal n = (if n < 10 then [digitChar n] else decimal (n div 10) @ [digitChar (n mod 10)])"

section \<open>Errors of composer-common and diagnostics of the language server protocol\<close>

text \<open>A location as composer-common reports it: 1-based lines and columns, numbers with
  an integer value.\<close>

record FilePosition =
  loc_line :: int
  loc_column :: int

record FileLocation =
  loc_start :: FilePosition
  loc_end :: FilePosition

text \<open>
  \<^verbatim>\<open>err.getFileLocation\<close>: \<open>NoAccessor\<close> when \<^verbatim>\<open>typeof err.getFileLocation\<close> is not
  \<^verbatim>\<open>"function"\<close>, \<open>Accessor None\<close> when the function returns a falsy location,
  \<open>Accessor (Some l)\<close> when it returns the location \<open>l\<close>.
\<close>

datatype accessor = NoAccessor | Accessor "FileLocation option"

text \<open>What the library throws: an object with a string \<^verbatim>\<open>name\<close> and a string
  \<^verbatim>\<open>message\<close>, as JavaScript errors have them. Reading the fields and calling
  \<^verbatim>\<open>getFileLocation\<close> does not throw.\<close>

record exception =
  name :: string
  message :: string
  getFileLocation :: accessor

datatype DiagnosticSeverity = Error | Warning | Information | Hint

record Position =
  line :: number
  character :: number

record Range =
  start :: Position
  end' :: Position

record Diagnostic =
  severity :: DiagnosticSeverity
  range' :: Range
  code :: string
  message' :: string
  source :: string

text \<open>
  Lines 163 to 213 of \<^verbatim>\<open>buildAndSendDiagnosticFromException\<close>: the diagnostic that is
  pushed on the list. The assignments of the source are the nested \<open>let\<close>s and the
  tuple \<open>(finalMsg, curLine, curColumn, endLine, endColumn)\<close>.
\<close>

definition buildDiagnosticFromException :: "exception \<Rightarrow> nat \<Rightarrow> Diagnostic" where
  "buildDiagnosticFromException err lineCount =
     (let fullMsg = name err @ '': '' @ message err;
          (finalMsg, curLine, curColumn, endLine, endColumn) =
            (case getFileLocation err of
               Accessor location \<Rightarrow>
                 (case location of
                    Some l \<Rightarrow>
                      (fullMsg,
                       minus1 (Num (loc_line (loc_start l))),
                       minus1 (Num (loc_column (loc_start l))),
                       minus1 (Num (loc_line (loc_end l))),
                       minus1 (Num (loc_column (loc_end l))))
                  | None \<Rightarrow> (fullMsg, Num 0, Num 0, Num (int lineCount), MAX_VALUE))
             | NoAccessor \<Rightarrow>
                 (let index = lastIndexOf fullMsg ''. Line ''
                  in if index \<noteq> - 1 then
                       (let finalMsg = substr fullMsg 0 (index + 1);
                            current = substrFrom fullMsg (index + 7);
                            curLine = minus1 (parseInt current);
                            curLine = (if isNaN curLine \<or> lt0 curLine then Num 0 else curLine);
                            endLine = curLine;
                            index = lastIndexOf current '' column '';
                            current = substrFrom current (index + 8);
                            curColumn = minus1 (parseInt current);
                            curColumn =
                              (if isNaN curColumn \<or> lt0 curColumn then Num 0 else curColumn);
                            endColumn = curColumn
                        in (finalMsg, curLine, curColumn, endLine, endColumn))
                     else (fullMsg, Num 0, Num 0, Num (int lineCount), MAX_VALUE)))
      in \<lparr>severity = Error,
          range' = \<lparr>start = \<lparr>line = curLine, character = curColumn\<rparr>,
                    end' = \<lparr>line = endLine, character = endColumn\<rparr>\<rparr>,
          code = name err,
          message' = finalMsg,
          source = ''Composer''\<rparr>)"

section \<open>The validation server\<close>

text \<open>
  composer-common is not part of the repository: its \<^verbatim>\<open>ModelManager\<close>, \<^verbatim>\<open>AclManager\<close> and
  \<^verbatim>\<open>AclFile\<close> are a parameter of the server, a record of operations over a library state
  \<open>'s\<close> (both managers, which live as long as the process) and the library's ACL file
  objects \<open>'f\<close>. A call that may throw returns the thrown exception, if any, and the state
  the call leaves. \<^verbatim>\<open>getAclFile\<close> and \<^verbatim>\<open>getIdentifier\<close> are getters: they neither throw
  nor change the state.

  The server stores the document's line count as a property \<^verbatim>\<open>lineCount\<close> on the
  library's object: an \<open>AclFile\<close> is the object together with that property. The
  library sees the property from \<^verbatim>\<open>setAclFile\<close> on, and every file \<^verbatim>\<open>getAclFile\<close> returns
  carries one: the server is the only caller of \<^verbatim>\<open>setAclFile\<close>, and sets the property
  before each call.
\<close>

record 'f AclFile =
  aclObject :: 'f
  aclLineCount :: nat

record ('s, 'f) composer_common =
  addModelFile :: "string option \<Rightarrow> 's \<Rightarrow> exception option \<times> 's"
  createAclFile :: "string \<Rightarrow> string option \<Rightarrow> 's \<Rightarrow> (exception + 'f) \<times> 's"
  setAclFile :: "'f AclFile \<Rightarrow> 's \<Rightarrow> exception option \<times> 's"
  getAclFile :: "'s \<Rightarrow> 'f AclFile option"
  validate :: "'f AclFile \<Rightarrow> 's \<Rightarrow> exception option \<times> 's"
  getIdentifier :: "'f \<Rightarrow> string"

text \<open>
  What the server does to the outside, in the order it does it: the calls into the
  library that may throw, and the \<^verbatim>\<open>connection.sendDiagnostics\<close> notifications.
\<close>

datatype 'f event =
    AddModelFile "string option"
  | CreateAclFile string "string option"
  | SetAclFile "'f AclFile"
  | Validate "'f AclFile"
  | SendDiagnostics string "Diagnostic list"

record ('s, 'f) server =
  library :: 's
  trace :: "'f event list"

definition sendDiagnostics ::
  "string \<Rightarrow> Diagnostic list \<Rightarrow> ('s, 'f) server \<Rightarrow> ('s, 'f) server" where
  "sendDiagnostics sourceURI diagnostics st =
     st\<lparr>trace := trace st @ [SendDiagnostics sourceURI diagnostics]\<rparr>"

definition sendDiagnosticSuccess :: "string \<Rightarrow> ('s, 'f) server \<Rightarrow> ('s, 'f) server" where
  "sendDiagnosticSuccess sourceURI st = sendDiagnostics sourceURI [] st"

definition buildAndSendDiagnosticFromException ::
  "exception \<Rightarrow> nat \<Rightarrow> string \<Rightarrow> ('s, 'f) server \<Rightarrow> ('s, 'f) server" where
  "buildAndSendDiagnosticFromException err lineCount sourceURI st =
     sendDiagnostics sourceURI [buildDiagnosticFromException err lineCount] st"

text \<open>A text document of the editor; \<open>getText = None\<close> is a \<^verbatim>\<open>null\<close> text.\<close>

record TextDocument =
  uri :: string
  languageId :: string
  getText :: "string option"
  lineCount :: nat

definition validateCtoModelFile ::
  "('s, 'f) composer_common \<Rightarrow> TextDocument \<Rightarrow> ('s, 'f) server \<Rightarrow> ('s, 'f) server" where
  "validateCtoModelFile lib textDocument st =
     (let txt = getText textDocument;
          (thrown, s) = addModelFile lib txt (library st);
          st = st\<lparr>library := s, trace := trace st @ [AddModelFile txt]\<rparr>
      in case thrown of
           None \<Rightarrow> sendDiagnosticSuccess (uri textDocument) st
         | Some err \<Rightarrow>
             buildAndSendDiagnosticFromException err (lineCount textDocument)
               (uri textDocument) st)"

definition validateNewAclModelFile ::
  "('s, 'f) composer_common \<Rightarrow> TextDocument \<Rightarrow> ('s, 'f) server \<Rightarrow> ('s, 'f) server" where
  "validateNewAclModelFile lib textDocument st =
     (let txt = getText textDocument;
          (created, s) = createAclFile lib (uri textDocument) txt (library st);
          st = st\<lparr>library := s, trace := trace st @ [CreateAclFile (uri textDocument) txt]\<rparr>
      in case created of
           Inl err \<Rightarrow>
             buildAndSendDiagnosticFromException err (lineCount textDocument)
               (uri textDocument) st
         | Inr f \<Rightarrow>
             (let aclFile = \<lparr>aclObject = f, aclLineCount = lineCount textDocument\<rparr>;
                  (thrown, s) = setAclFile lib aclFile (library st);
                  st = st\<lparr>library := s, trace := trace st @ [SetAclFile aclFile]\<rparr>
              in case thrown of
                   None \<Rightarrow> sendDiagnosticSuccess (uri textDocument) st
                 | Some err \<Rightarrow>
                     buildAndSendDiagnosticFromException err (lineCount textDocument)
                       (uri textDocument) st))"

definition validateExistingAclModelFile ::
  "('s, 'f) composer_common \<Rightarrow> 'f AclFile \<Rightarrow> ('s, 'f) server \<Rightarrow> ('s, 'f) server" where
  "validateExistingAclModelFile lib aclFile st =
     (let (thrown, s) = validate lib aclFile (library st);
          st = st\<lparr>library := s, trace := trace st @ [Validate aclFile]\<rparr>
      in case thrown of
           None \<Rightarrow> sendDiagnosticSuccess (getIdentifier lib (aclObject aclFile)) st
         | Some err \<Rightarrow>
             buildAndSendDiagnosticFromException err (aclLineCount aclFile)
               (getIdentifier lib (aclObject aclFile)) st)"

definition validateTextDocument ::
  "('s, 'f) composer_common \<Rightarrow> TextDocument \<Rightarrow> ('s, 'f) server \<Rightarrow> ('s, 'f) server" where
  "validateTextDocument lib textDocument st =
     (let langId = languageId textDocument
      in case getText textDocument of
           None \<Rightarrow> st
         | Some txt \<Rightarrow>
             if length txt > 0 then
               (if langId = ''composer-acl'' then validateNewAclModelFile lib textDocument st
                else
                  (let st = validateCtoModelFile lib textDocument st
                   in case getAclFile lib (library st) of
                        Some aclFile \<Rightarrow> validateExistingAclModelFile lib aclFile st
                      | None \<Rightarrow> st))
             else st)"

text \<open>The notifications of a trace, in order: the URI and the diagnostics of each.\<close>

fun published :: "'f event list \<Rightarrow> (string \<times> Diagnostic list) list" where
  "published [] = []"
| "published (SendDiagnostics u ds # es) = (u, ds) # published es"
| "published (_ # es) = published es"

text \<open>
  Modelled from the spec: composer-common's \<^verbatim>\<open>ModelManager\<close>, \<^verbatim>\<open>AclManager\<close> and \<^verbatim>\<open>AclFile\<close>
  (an external library), as far as section 3 of the spec describes them, to run the
  server on concrete inputs. The model manager holds the model files added so far; the
  ACL manager holds at most one ACL file, and setting one replaces the one before; an
  ACL file carries its identifier (the URI it was created for) and its text. Which
  texts the library rejects, and with which exception, is the parameter \<open>rejects\<close>.
\<close>

record library_state =
  modelFiles :: "string option list"
  aclFile :: "(string \<times> string option) AclFile option"

definition composer_stub ::
  "(string option \<Rightarrow> exception option) \<Rightarrow>
   (library_state, string \<times> string option) composer_common" where
  "composer_stub rejects =
     \<lparr>addModelFile = (\<lambda>txt s.
        (case rejects txt of
           None \<Rightarrow> (None, s\<lparr>modelFiles := modelFiles s @ [txt]\<rparr>)
         | Some e \<Rightarrow> (Some e, s))),
      createAclFile = (\<lambda>u txt s.
        (case rejects txt of None \<Rightarrow> (Inr (u, txt), s) | Some e \<Rightarrow> (Inl e, s))),
      setAclFile = (\<lambda>f s. (None, s\<lparr>aclFile := Some f\<rparr>)),
      getAclFile = aclFile,
      validate = (\<lambda>f s. (rejects (snd (aclObject f)), s)),
      getIdentifier = fst\<rparr>"

section \<open>The client's diagram flow\<close>






section \<open>Properties of the numbers\<close>

declare ulp.simps [simp del]

lemma ulp_small: "m < 2 ^ 53 \<Longrightarrow> ulp m = 1"
  by (subst ulp.simps) simp

text \<open>Integers of magnitude below \<open>2^53\<close> are doubles: nothing is rounded.\<close>

lemma roundToDouble_exact:
  assumes "\<bar>n\<bar> < 2 ^ 53"
  shows "roundToDouble n = Num n"
proof -
  define m where "m = nat \<bar>n\<bar>"
  from assms have m: "m < 2 ^ 53"
    by (simp add: m_def nat_less_iff)
  have "(2::nat) ^ 53 \<le> 2 ^ 1024"
    by (rule power_increasing) simp_all
  with m have big: "\<not> (2::nat) ^ 1024 \<le> m"
    by linarith
  have "roundToDouble n
        = (let u = ulp m; q = m div u; r = m mod u;
               q = (if 2 * r < u \<or> (2 * r = u \<and> even q) then q else q + 1);
               v = q * u
           in if 2 ^ 1024 \<le> v then Infinity (n < 0)
              else Num (if n < 0 then - int v else int v))"
    by (simp only: roundToDouble_def m_def Let_def)
  also have "\<dots> = Num (if n < 0 then - int m else int m)"
    using big by (simp add: ulp_small[OF m])
  also have "\<dots> = Num n"
    by (simp add: m_def)
  finally show ?thesis .
qed

section \<open>Properties of the string operations\<close>

declare decimal.simps [simp del]

lemma matchAt_append: "matchAt (a @ p @ c) p (length a)"
  by (simp add: matchAt_def)

lemma matchAt_sublist:
  assumes "matchAt s p k" shows "sublist p (drop k s)"
proof -
  have "drop k s = take (length p) (drop k s) @ drop (length p) (drop k s)"
    by (simp only: append_take_drop_id)
  with assms have "drop k s = [] @ p @ drop (length p) (drop k s)"
    by (simp only: matchAt_def append_Nil)
  then show ?thesis unfolding sublist_def by blast
qed

lemma lastIndexFrom_ge:
  "j \<le> k \<Longrightarrow> matchAt s p j \<Longrightarrow> int j \<le> lastIndexFrom s p k"
  by (induction k) (auto simp: le_Suc_eq)

lemma lastIndexFrom_none:
  "(\<And>j. j \<le> k \<Longrightarrow> \<not> matchAt s p j) \<Longrightarrow> lastIndexFrom s p k = - 1"
  by (induction k) auto

lemma lastIndexFrom_eq:
  "j \<le> k \<Longrightarrow> matchAt s p j \<Longrightarrow> (\<And>i. j < i \<Longrightarrow> i \<le> k \<Longrightarrow> \<not> matchAt s p i)
   \<Longrightarrow> lastIndexFrom s p k = int j"
proof (induction k)
  case 0 then show ?case by simp
next
  case (Suc k)
  show ?case
  proof (cases "j = Suc k")
    case True with Suc.prems show ?thesis by simp
  next
    case False
    with Suc.prems have "j \<le> k" by simp
    moreover have "\<not> matchAt s p (Suc k)" using Suc.prems False by simp
    ultimately show ?thesis using Suc by simp
  qed
qed

lemma lastIndexFrom_cases:
  "lastIndexFrom s p k = - 1 \<or> (\<exists>j\<le>k. lastIndexFrom s p k = int j \<and> matchAt s p j)"
  by (induction k) auto

lemma lastIndexOf_none: "\<not> sublist p s \<Longrightarrow> lastIndexOf s p = - 1"
proof -
  assume n: "\<not> sublist p s"
  have "\<not> matchAt s p j" for j
  proof
    assume "matchAt s p j"
    then have "sublist p (drop j s)" by (rule matchAt_sublist)
    then have "sublist p s" by (metis sublist_order.order_trans sublist_drop)
    with n show False by simp
  qed
  then show ?thesis by (simp add: lastIndexOf_def lastIndexFrom_none)
qed

lemma lastIndexOf_ge: "int (length a) \<le> lastIndexOf (a @ p @ c) p"
  by (simp add: lastIndexOf_def lastIndexFrom_ge matchAt_append)

lemma lastIndexOf_append:
  assumes "\<not> sublist p (tl (p @ c))"
  shows "lastIndexOf (a @ p @ c) p = int (length a)"
proof -
  have "\<not> matchAt (a @ p @ c) p i" if "length a < i" for i
  proof
    assume m: "matchAt (a @ p @ c) p i"
    from that obtain d where i: "i = Suc (length a + d)" by (metis less_iff_Suc_add)
    have "drop (Suc (length a + d)) (a @ t) = drop d (tl t)" for t :: "'a list"
      by (simp add: drop_Suc)
    then have "drop i (a @ p @ c) = drop d (tl (p @ c))"
      unfolding i .
    with matchAt_sublist[OF m] have "sublist p (drop d (tl (p @ c)))" by simp
    then have "sublist p (tl (p @ c))" by (metis sublist_order.order_trans sublist_drop)
    with assms show False by simp
  qed
  then show ?thesis
    by (simp add: lastIndexOf_def lastIndexFrom_eq[where j="length a"] matchAt_append)
qed

lemma lastIndexOf_prefix:
  "lastIndexOf s p \<noteq> - 1 \<Longrightarrow> \<exists>k. lastIndexOf s p = int k \<and> matchAt s p k"
  using lastIndexFrom_cases[of s p "length s - length p"]
  by (auto simp: lastIndexOf_def split: if_splits)

text \<open>Characters that cannot start the pattern are skipped.\<close>

lemma sublist_strip:
  "c \<notin> set x \<Longrightarrow> sublist (c # p) (x @ r) \<Longrightarrow> sublist (c # p) r"
  by (induction x) (auto simp: sublist_Cons_right)

lemma sublist_separator:
  assumes "c \<notin> set p" and "sublist p (a @ c # b)"
  shows "sublist p a \<or> sublist p b"
proof -
  from assms(2) consider "sublist p a" | "sublist p (c # b)"
    | xs1 xs2 where "p = xs1 @ xs2" "suffix xs1 a" "prefix xs2 (c # b)"
    by (auto simp: sublist_append)
  then show ?thesis
  proof cases
    case 1 then show ?thesis by simp
  next
    case 2
    with assms(1) show ?thesis
      by (cases p) (auto simp: sublist_Cons_right)
  next
    case 3
    show ?thesis
    proof (cases xs2)
      case Nil
      with 3 show ?thesis by (auto intro: suffix_imp_sublist)
    next
      case (Cons y ys)
      with 3 assms(1) show ?thesis by auto
    qed
  qed
qed

lemma no_straddle:
  assumes "\<not> sublist ''. Line '' nm" and "\<not> sublist ''. Line '' msg"
  shows "\<not> sublist ''. Line '' (nm @ '': '' @ msg)"
proof
  assume "sublist ''. Line '' (nm @ '': '' @ msg)"
  then have "sublist ''. Line '' (nm @ CHR '':'' # (CHR '' '' # msg))" by simp
  then have "sublist ''. Line '' nm \<or> sublist ''. Line '' (CHR '' '' # msg)"
    by (rule sublist_separator[rotated]) simp
  with assms(1) have "sublist ''. Line '' (CHR '' '' # msg)" by simp
  then have "sublist ''. Line '' msg" by (simp add: sublist_Cons_right)
  with assms(2) show False by simp
qed

lemma substr_take: "substr s 0 (int k + 1) = take (Suc k) s"
  by (simp add: substr_def substrFrom_def nat_add_distrib)

lemma substrFrom_drop: "0 \<le> i \<Longrightarrow> substrFrom s i = drop (nat i) s"
  by (simp add: substrFrom_def)

lemma of_char_digitChar: "d < 10 \<Longrightarrow> (of_char (digitChar d) :: nat) = 48 + d"
  by (simp add: digitChar_def)

lemma isDigit_digitChar: "d < 10 \<Longrightarrow> isDigit (digitChar d)"
  by (simp add: isDigit_def of_char_digitChar)

lemma digitValue_digitChar: "d < 10 \<Longrightarrow> digitValue (digitChar d) = d"
  by (simp add: digitValue_def of_char_digitChar)

lemma decimal_digits: "c \<in> set (decimal n) \<Longrightarrow> isDigit c"
proof (induction n rule: decimal.induct)
  case (1 n)
  then show ?case
    by (subst (asm) (2) decimal.simps) (auto simp: isDigit_digitChar split: if_splits)
qed

lemma decimal_nonempty: "decimal n \<noteq> []"
  by (subst decimal.simps) simp

lemma mathInt_snoc: "mathInt (Z @ [c]) = 10 * mathInt Z + digitValue c"
  by (simp add: mathInt_def)

lemma mathInt_decimal: "mathInt (decimal n) = n"
proof (induction n rule: decimal.induct)
  case (1 n)
  show ?case
  proof (cases "n < 10")
    case True
    then show ?thesis
      by (subst decimal.simps) (simp add: mathInt_def digitValue_digitChar)
  next
    case False
    with 1 have "mathInt (decimal (n div 10)) = n div 10" by simp
    with False show ?thesis
      by (subst decimal.simps) (simp add: mathInt_snoc digitValue_digitChar)
  qed
qed

lemma isDigit_plain:
  assumes "isDigit c"
  shows "\<not> isWhiteSpace c" and "c \<noteq> CHR ''-''" and "c \<noteq> CHR ''+''"
    and "c \<noteq> CHR ''.''" and "c \<noteq> CHR '' ''" and "c \<noteq> CHR ''c''"
  using assms by (auto simp: isDigit_def isWhiteSpace_def)

lemma takeWhile_decimal:
  assumes "r = [] \<or> \<not> isDigit (hd r)"
  shows "takeWhile isDigit (decimal n @ r) = decimal n"
proof -
  have "takeWhile isDigit r = []" using assms by (cases r) auto
  then show ?thesis by (simp add: takeWhile_append2 decimal_digits)
qed

lemma parseInt_decimal:
  assumes "r = [] \<or> \<not> isDigit (hd r)" and "n < 2 ^ 53"
  shows "parseInt (decimal n @ r) = Num (int n)"
proof -
  obtain c cs where d: "decimal n = c # cs"
    using decimal_nonempty[of n] by (cases "decimal n") auto
  then have c: "isDigit c" using decimal_digits[of c n] by simp
  have "takeWhile isDigit (c # cs @ r) = c # cs"
    using takeWhile_decimal[OF assms(1), of n] d by simp
  moreover have "mathInt (c # cs) = n" using mathInt_decimal[of n] d by simp
  moreover have "roundToDouble (int n) = Num (int n)"
    using assms(2) by (intro roundToDouble_exact) simp
  ultimately have "parseDigits 1 (c # cs @ r) = Num (int n)"
    by (simp add: parseDigits_def)
  with c d show ?thesis
    by (simp add: parseInt_def isDigit_plain)
qed

section \<open>Properties of the diagnostic builder\<close>

lemma sent_diagnostic:
  "buildAndSendDiagnosticFromException err n u st
     = st\<lparr>trace := trace st @ [SendDiagnostics u [buildDiagnosticFromException err n]]\<rparr>"
  by (simp add: buildAndSendDiagnosticFromException_def sendDiagnostics_def)

lemma build_default:
  assumes "getFileLocation err = Accessor None
           \<or> getFileLocation err = NoAccessor
             \<and> lastIndexOf (name err @ '': '' @ message err) ''. Line '' = - 1"
  shows "buildDiagnosticFromException err n
         = \<lparr>severity = Error,
            range' = \<lparr>start = \<lparr>line = Num 0, character = Num 0\<rparr>,
                      end' = \<lparr>line = Num (int n), character = MAX_VALUE\<rparr>\<rparr>,
            code = name err,
            message' = name err @ '': '' @ message err,
            source = ''Composer''\<rparr>"
  using assms by (auto simp: buildDiagnosticFromException_def)

text \<open>The unstructured path, once the last \<^verbatim>\<open>". Line "\<close> is found at index \<open>k\<close>.\<close>

lemma build_unstructured:
  assumes "getFileLocation err = NoAccessor"
    and "lastIndexOf (name err @ '': '' @ message err) ''. Line '' = int k"
  shows "buildDiagnosticFromException err n
         = (let fullMsg = name err @ '': '' @ message err;
                current = drop (k + 7) fullMsg;
                l = minus1 (parseInt current);
                l = (if isNaN l \<or> lt0 l then Num 0 else l);
                c = minus1 (parseInt
                      (substrFrom current (lastIndexOf current '' column '' + 8)));
                c = (if isNaN c \<or> lt0 c then Num 0 else c)
            in \<lparr>severity = Error,
                range' = \<lparr>start = \<lparr>line = l, character = c\<rparr>,
                          end' = \<lparr>line = l, character = c\<rparr>\<rparr>,
                code = name err,
                message' = take (Suc k) fullMsg,
                source = ''Composer''\<rparr>)"
proof -
  have "substrFrom (name err @ '': '' @ message err) (int k + 7)
        = drop (k + 7) (name err @ '': '' @ message err)"
    by (simp add: substrFrom_drop nat_add_distrib)
  with assms show ?thesis
    by (simp add: buildDiagnosticFromException_def Let_def substr_take
        del: append.simps)
qed

lemma prefix_take_append: "length p \<le> m \<Longrightarrow> prefix p (take m (p @ r))"
  by simp

lemma build_structured_message:
  "getFileLocation err = Accessor loc \<Longrightarrow>
   message' (buildDiagnosticFromException err n) = name err @ '': '' @ message err"
  by (cases loc) (simp_all add: buildDiagnosticFromException_def)

lemma last_line_index:
  assumes "\<not> sublist ''. Line '' cur"
  shows "lastIndexOf (a @ ''. Line '' @ cur) ''. Line '' = int (length a)"
proof (rule lastIndexOf_append)
  have "\<not> sublist ''. Line '' ('' Line '' @ cur)"
  proof
    assume "sublist ''. Line '' ('' Line '' @ cur)"
    then have "sublist ''. Line '' cur"
      by (rule sublist_strip[rotated]) simp
    with assms show False by simp
  qed
  then show "\<not> sublist ''. Line '' (tl (''. Line '' @ cur))" by simp
qed

lemma column_text_present:
  assumes "\<not> sublist '' column '' (''column '' @ col)"
  shows "substrFrom (b @ '' column '' @ col) (lastIndexOf (b @ '' column '' @ col) '' column '' + 8)
         = col"
proof -
  from assms have "\<not> sublist '' column '' (tl ('' column '' @ col))" by simp
  then have "lastIndexOf (b @ '' column '' @ col) '' column '' = int (length b)"
    by (rule lastIndexOf_append)
  then show ?thesis by (simp add: substrFrom_drop nat_add_distrib)
qed

lemma column_text_absent:
  assumes "\<not> sublist '' column '' cur"
  shows "substrFrom cur (lastIndexOf cur '' column '' + 8) = drop 7 cur"
  using lastIndexOf_none[OF assms] by (simp add: substrFrom_drop)

lemma build_at_last_line:
  assumes "getFileLocation err = NoAccessor"
    and "name err @ '': '' @ message err = a @ ''. Line '' @ cur"
    and "\<not> sublist ''. Line '' cur"
  shows "buildDiagnosticFromException err n
         = (let l = minus1 (parseInt cur);
                l = (if isNaN l \<or> lt0 l then Num 0 else l);
                c = minus1 (parseInt (substrFrom cur (lastIndexOf cur '' column '' + 8)));
                c = (if isNaN c \<or> lt0 c then Num 0 else c)
            in \<lparr>severity = Error,
                range' = \<lparr>start = \<lparr>line = l, character = c\<rparr>,
                          end' = \<lparr>line = l, character = c\<rparr>\<rparr>,
                code = name err,
                message' = a @ ''.'',
                source = ''Composer''\<rparr>)"
proof -
  have k: "lastIndexOf (name err @ '': '' @ message err) ''. Line '' = int (length a)"
    unfolding assms(2) using assms(3) by (rule last_line_index)
  have "drop (length a + 7) (a @ ''. Line '' @ cur) = cur" by simp
  moreover have "take (Suc (length a)) (a @ ''. Line '' @ cur) = a @ ''.''" by simp
  ultimately show ?thesis
    unfolding build_unstructured[OF assms(1) k] assms(2) by (simp only: Let_def)
qed

lemma decimal_no_char:
  assumes "\<not> isDigit c" shows "c \<notin> set (decimal n)"
  using assms decimal_digits by blast

text \<open>Facts that evaluate \<^verbatim>\<open>parseInt\<close> on a given string.\<close>

lemmas parse_eval = parseInt_def parseDigits_def mathInt_def digitValue_def isDigit_def
  isWhiteSpace_def roundToDouble_exact

text \<open>The diagnostic of the unstructured path, without and with \<^verbatim>\<open>" column "\<close>.\<close>

lemma build_column_absent:
  assumes "getFileLocation err = NoAccessor"
    and "name err @ '': '' @ message err = a @ ''. Line '' @ cur"
    and "\<not> sublist ''. Line '' cur" and "\<not> sublist '' column '' cur"
  shows "buildDiagnosticFromException err n
         = (let l = minus1 (parseInt cur);
                l = (if isNaN l \<or> lt0 l then Num 0 else l);
                c = minus1 (parseInt (drop 7 cur));
                c = (if isNaN c \<or> lt0 c then Num 0 else c)
            in \<lparr>severity = Error,
                range' = \<lparr>start = \<lparr>line = l, character = c\<rparr>,
                          end' = \<lparr>line = l, character = c\<rparr>\<rparr>,
                code = name err,
                message' = a @ ''.'',
                source = ''Composer''\<rparr>)"
  unfolding build_at_last_line[OF assms(1-3)] column_text_absent[OF assms(4)] ..

lemma build_column_present:
  assumes "getFileLocation err = NoAccessor"
    and "name err @ '': '' @ message err = a @ ''. Line '' @ b @ '' column '' @ col"
    and "\<not> sublist ''. Line '' (b @ '' column '' @ col)"
    and "\<not> sublist '' column '' (''column '' @ col)"
  shows "buildDiagnosticFromException err n
         = (let l = minus1 (parseInt (b @ '' column '' @ col));
                l = (if isNaN l \<or> lt0 l then Num 0 else l);
                c = minus1 (parseInt col);
                c = (if isNaN c \<or> lt0 c then Num 0 else c)
            in \<lparr>severity = Error,
                range' = \<lparr>start = \<lparr>line = l, character = c\<rparr>,
                          end' = \<lparr>line = l, character = c\<rparr>\<rparr>,
                code = name err,
                message' = a @ ''.'',
                source = ''Composer''\<rparr>)"
  unfolding build_at_last_line[OF assms(1-3)] column_text_present[OF assms(4)] ..

section \<open>Properties of the validation functions\<close>

lemma published_append: "published (xs @ ys) = published xs @ published ys"
  by (induction xs rule: published.induct) simp_all

lemma validateCtoModelFile_run:
  assumes "addModelFile lib (getText doc) (library st) = (thrown, s)"
  shows "validateCtoModelFile lib doc st
         = st\<lparr>library := s,
              trace := trace st @
                [AddModelFile (getText doc),
                 SendDiagnostics (uri doc)
                   (case thrown of
                      None \<Rightarrow> []
                    | Some err \<Rightarrow> [buildDiagnosticFromException err (lineCount doc)])]\<rparr>"
  using assms
  by (cases thrown)
     (simp_all add: validateCtoModelFile_def sendDiagnosticSuccess_def
        buildAndSendDiagnosticFromException_def sendDiagnostics_def)

lemma validateExistingAclModelFile_run:
  assumes "validate lib f (library st) = (thrown, s)"
  shows "validateExistingAclModelFile lib f st
         = st\<lparr>library := s,
              trace := trace st @
                [Validate f,
                 SendDiagnostics (getIdentifier lib (aclObject f))
                   (case thrown of
                      None \<Rightarrow> []
                    | Some err \<Rightarrow> [buildDiagnosticFromException err (aclLineCount f)])]\<rparr>"
  using assms
  by (cases thrown)
     (simp_all add: validateExistingAclModelFile_def sendDiagnosticSuccess_def
        buildAndSendDiagnosticFromException_def sendDiagnostics_def)

lemma validateNewAclModelFile_throws:
  assumes "createAclFile lib (uri doc) (getText doc) (library st) = (Inl err, s)"
  shows "validateNewAclModelFile lib doc st
         = st\<lparr>library := s,
              trace := trace st @
                [CreateAclFile (uri doc) (getText doc),
                 SendDiagnostics (uri doc)
                   [buildDiagnosticFromException err (lineCount doc)]]\<rparr>"
  using assms
  by (simp add: validateNewAclModelFile_def buildAndSendDiagnosticFromException_def
      sendDiagnostics_def)

lemma validateNewAclModelFile_created:
  assumes "createAclFile lib (uri doc) (getText doc) (library st) = (Inr f, s1)"
    and "setAclFile lib \<lparr>aclObject = f, aclLineCount = lineCount doc\<rparr> s1 = (thrown, s2)"
  shows "validateNewAclModelFile lib doc st
         = st\<lparr>library := s2,
              trace := trace st @
                [CreateAclFile (uri doc) (getText doc),
                 SetAclFile \<lparr>aclObject = f, aclLineCount = lineCount doc\<rparr>,
                 SendDiagnostics (uri doc)
                   (case thrown of
                      None \<Rightarrow> []
                    | Some err \<Rightarrow> [buildDiagnosticFromException err (lineCount doc)])]\<rparr>"
  using assms
  by (cases thrown)
     (simp_all add: validateNewAclModelFile_def sendDiagnosticSuccess_def
        buildAndSendDiagnosticFromException_def sendDiagnostics_def)



section \<open>The claims\<close>

text \<open>
  Claim C1, amended. When the error has a \<^verbatim>\<open>getFileLocation\<close> function that returns a
  location whose four coordinates are integers from 1 to \<open>2^53\<close>,
  \<^verbatim>\<open>buildAndSendDiagnosticFromException\<close> sends one diagnostic, whose range starts at
  (start line - 1, start column - 1) and ends at (end line - 1, end column - 1): every
  1-based coordinate of the location is lowered by exactly 1.
\<close>

theorem structured_location_range:
  assumes "getFileLocation err = Accessor (Some l)"
    and "\<forall>c \<in> {loc_line (loc_start l), loc_column (loc_start l),
                 loc_line (loc_end l), loc_column (loc_end l)}. 1 \<le> c \<and> c \<le> 2 ^ 53"
  shows "\<exists>d. buildAndSendDiagnosticFromException err n u st
               = st\<lparr>trace := trace st @ [SendDiagnostics u [d]]\<rparr>
           \<and> range' d =
               \<lparr>start = \<lparr>line = Num (loc_line (loc_start l) - 1),
                          character = Num (loc_column (loc_start l) - 1)\<rparr>,
                end' = \<lparr>line = Num (loc_line (loc_end l) - 1),
                         character = Num (loc_column (loc_end l) - 1)\<rparr>\<rparr>"
proof -
  let ?d = "buildDiagnosticFromException err n"
  have exact: "minus1 (Num c) = Num (c - 1)" if "1 \<le> c \<and> c \<le> 2 ^ 53" for c :: int
    using that by (simp add: roundToDouble_exact)
  have "range' ?d =
      \<lparr>start = \<lparr>line = minus1 (Num (loc_line (loc_start l))),
                 character = minus1 (Num (loc_column (loc_start l)))\<rparr>,
       end' = \<lparr>line = minus1 (Num (loc_line (loc_end l))),
                character = minus1 (Num (loc_column (loc_end l)))\<rparr>\<rparr>"
    using assms(1) by (simp add: buildDiagnosticFromException_def del: minus1.simps)
  also have "\<dots> =
      \<lparr>start = \<lparr>line = Num (loc_line (loc_start l) - 1),
                 character = Num (loc_column (loc_start l) - 1)\<rparr>,
       end' = \<lparr>line = Num (loc_line (loc_end l) - 1),
                character = Num (loc_column (loc_end l) - 1)\<rparr>\<rparr>"
    using assms(2) by (simp add: exact del: minus1.simps)
  finally show ?thesis using sent_diagnostic[of err n u st] by blast
qed

theorem structured_location_range_witness:
  "(1::int) \<le> 3 \<and> (3::int) \<le> 2 ^ 53 \<and> (1::int) \<le> 5 \<and> (5::int) \<le> 2 ^ 53
   \<and> (1::int) \<le> 4 \<and> (4::int) \<le> 2 ^ 53 \<and> (1::int) \<le> 12 \<and> (12::int) \<le> 2 ^ 53
   \<and> (\<exists>d. buildAndSendDiagnosticFromException
          \<lparr>name = ''IllegalModelException'', message = ''Type Foo is undefined'',
           getFileLocation = Accessor (Some
             \<lparr>loc_start = \<lparr>loc_line = 3, loc_column = 5\<rparr>,
              loc_end = \<lparr>loc_line = 4, loc_column = 12\<rparr>\<rparr>)\<rparr>
          20 ''file:///model.cto'' \<lparr>library = (), trace = ([] :: unit event list)\<rparr>
        = \<lparr>library = (), trace = [SendDiagnostics ''file:///model.cto'' [d]]\<rparr>
      \<and> range' d = \<lparr>start = \<lparr>line = Num 2, character = Num 4\<rparr>,
                     end' = \<lparr>line = Num 3, character = Num 11\<rparr>\<rparr>)"
  using structured_location_range
    [of "\<lparr>name = ''IllegalModelException'', message = ''Type Foo is undefined'',
           getFileLocation = Accessor (Some
             \<lparr>loc_start = \<lparr>loc_line = 3, loc_column = 5\<rparr>,
              loc_end = \<lparr>loc_line = 4, loc_column = 12\<rparr>\<rparr>)\<rparr>"
        "\<lparr>loc_start = \<lparr>loc_line = 3, loc_column = 5\<rparr>,
              loc_end = \<lparr>loc_line = 4, loc_column = 12\<rparr>\<rparr>"
        20 "''file:///model.cto''" "\<lparr>library = (), trace = ([] :: unit event list)\<rparr>"]
  by simp

text \<open>
  The claim as stated has no bound on the coordinates. The subtraction is one of
  doubles: from \<open>2^53\<close> on the odd integers are no doubles, and the line
  9007199254740994 is reported as line 9007199254740992, not 9007199254740993.
\<close>

theorem structured_location_range_counterexample:
  "buildAndSendDiagnosticFromException
     \<lparr>name = ''IllegalModelException'', message = ''Type Foo is undefined'',
      getFileLocation = Accessor (Some
        \<lparr>loc_start = \<lparr>loc_line = 9007199254740994, loc_column = 1\<rparr>,
         loc_end = \<lparr>loc_line = 9007199254740994, loc_column = 9\<rparr>\<rparr>)\<rparr>
     20 ''file:///model.cto'' \<lparr>library = (), trace = ([] :: unit event list)\<rparr>
   = \<lparr>library = (),
      trace = [SendDiagnostics ''file:///model.cto''
        [\<lparr>severity = Error,
          range' = \<lparr>start = \<lparr>line = Num 9007199254740992, character = Num 0\<rparr>,
                    end' = \<lparr>line = Num 9007199254740992, character = Num 8\<rparr>\<rparr>,
          code = ''IllegalModelException'',
          message' = ''IllegalModelException: Type Foo is undefined'',
          source = ''Composer''\<rparr>]]\<rparr>
   \<and> Num 9007199254740992 \<noteq> Num (9007199254740994 - 1)"
proof -
  have "ulp 9007199254740993 = 2"
    by (subst ulp.simps, simp, subst ulp.simps, simp)
  then have "minus1 (Num 9007199254740994) = Num 9007199254740992"
    by (simp add: roundToDouble_def)
  moreover have "minus1 (Num 1) = Num 0" and "minus1 (Num 9) = Num 8"
    by (simp_all add: roundToDouble_exact)
  ultimately show ?thesis
    by (simp add: sent_diagnostic buildDiagnosticFromException_def del: minus1.simps)
qed

text \<open>
  Claim C2, amended. When \<^verbatim>\<open>getFileLocation\<close> exists and returns a falsy location, or
  when the error has no such function and neither its name nor its message contains
  \<^verbatim>\<open>". Line "\<close>, the one diagnostic sent has the range from (0, 0) to
  (lineCount, \<^verbatim>\<open>Number.MAX_VALUE\<close>): the whole document. The search runs over
  \<^verbatim>\<open>err.name + ": " + err.message\<close>, so the name counts as well.
\<close>

theorem default_range:
  assumes "getFileLocation err = Accessor None
           \<or> getFileLocation err = NoAccessor
             \<and> \<not> sublist ''. Line '' (name err) \<and> \<not> sublist ''. Line '' (message err)"
  shows "\<exists>d. buildAndSendDiagnosticFromException err n u st
               = st\<lparr>trace := trace st @ [SendDiagnostics u [d]]\<rparr>
           \<and> range' d = \<lparr>start = \<lparr>line = Num 0, character = Num 0\<rparr>,
                          end' = \<lparr>line = Num (int n), character = MAX_VALUE\<rparr>\<rparr>"
proof -
  from assms have "getFileLocation err = Accessor None
           \<or> getFileLocation err = NoAccessor
             \<and> lastIndexOf (name err @ '': '' @ message err) ''. Line '' = - 1"
  proof (elim disjE conjE)
    assume "getFileLocation err = Accessor None"
    then show ?thesis by simp
  next
    assume n: "getFileLocation err = NoAccessor"
      and a: "\<not> sublist ''. Line '' (name err)" and b: "\<not> sublist ''. Line '' (message err)"
    from a b have "\<not> sublist ''. Line '' (name err @ '': '' @ message err)"
      by (rule no_straddle)
    then have "lastIndexOf (name err @ '': '' @ message err) ''. Line '' = - 1"
      by (rule lastIndexOf_none)
    with n show ?thesis by blast
  qed
  then have "range' (buildDiagnosticFromException err n)
      = \<lparr>start = \<lparr>line = Num 0, character = Num 0\<rparr>,
         end' = \<lparr>line = Num (int n), character = MAX_VALUE\<rparr>\<rparr>"
    by (simp add: build_default)
  with sent_diagnostic[of err n u st] show ?thesis by blast
qed

theorem default_range_witness:
  "\<not> sublist ''. Line '' ''TypeError'' \<and> \<not> sublist ''. Line '' ''x is undefined''
   \<and> (\<exists>d. buildAndSendDiagnosticFromException
          \<lparr>name = ''TypeError'', message = ''x is undefined'', getFileLocation = NoAccessor\<rparr>
          12 ''file:///model.cto'' \<lparr>library = (), trace = ([] :: unit event list)\<rparr>
        = \<lparr>library = (), trace = [SendDiagnostics ''file:///model.cto'' [d]]\<rparr>
      \<and> range' d = \<lparr>start = \<lparr>line = Num 0, character = Num 0\<rparr>,
                     end' = \<lparr>line = Num 12, character = MAX_VALUE\<rparr>\<rparr>)"
proof -
  have h: "\<not> sublist ''. Line '' ''TypeError'' \<and> \<not> sublist ''. Line '' ''x is undefined''"
    by (simp add: sublist_Cons_right)
  with default_range
    [of "\<lparr>name = ''TypeError'', message = ''x is undefined'', getFileLocation = NoAccessor\<rparr>"
        12 "''file:///model.cto''" "\<lparr>library = (), trace = ([] :: unit event list)\<rparr>"]
  show ?thesis by simp
qed

text \<open>
  The claim as stated asks only that the message does not contain \<^verbatim>\<open>". Line "\<close>. An
  error named \<^verbatim>\<open>E. Line 7\<close> with the message \<^verbatim>\<open>oops\<close> has no such message, and its
  diagnostic has the range (6, 0) to (6, 0), not the whole document.
\<close>

theorem default_range_counterexample:
  "getFileLocation \<lparr>name = ''E. Line 7'', message = ''oops'', getFileLocation = NoAccessor\<rparr>
     = NoAccessor
   \<and> \<not> sublist ''. Line ''
        (message \<lparr>name = ''E. Line 7'', message = ''oops'', getFileLocation = NoAccessor\<rparr>)
   \<and> buildAndSendDiagnosticFromException
        \<lparr>name = ''E. Line 7'', message = ''oops'', getFileLocation = NoAccessor\<rparr>
        10 ''file:///model.cto'' \<lparr>library = (), trace = ([] :: unit event list)\<rparr>
      = \<lparr>library = (),
         trace = [SendDiagnostics ''file:///model.cto''
           [\<lparr>severity = Error,
             range' = \<lparr>start = \<lparr>line = Num 6, character = Num 0\<rparr>,
                       end' = \<lparr>line = Num 6, character = Num 0\<rparr>\<rparr>,
             code = ''E. Line 7'', message' = ''E.'', source = ''Composer''\<rparr>]]\<rparr>
   \<and> \<lparr>start = \<lparr>line = Num 6, character = Num 0\<rparr>,
       end' = \<lparr>line = Num 6, character = Num 0\<rparr>\<rparr>
      \<noteq> \<lparr>start = \<lparr>line = Num 0, character = Num 0\<rparr>,
          end' = \<lparr>line = Num 10, character = MAX_VALUE\<rparr>\<rparr>"
proof -
  have "buildDiagnosticFromException
          \<lparr>name = ''E. Line 7'', message = ''oops'', getFileLocation = NoAccessor\<rparr> 10
        = \<lparr>severity = Error,
             range' = \<lparr>start = \<lparr>line = Num 6, character = Num 0\<rparr>,
                       end' = \<lparr>line = Num 6, character = Num 0\<rparr>\<rparr>,
             code = ''E. Line 7'', message' = ''E.'', source = ''Composer''\<rparr>"
    by (subst build_column_absent[where a = "''E''" and cur = "''7: oops''"])
       (simp_all add: sublist_Cons_right parse_eval Let_def)
  then show ?thesis
    by (simp add: sent_diagnostic sublist_Cons_right)
qed

text \<open>
  Claim C3, amended. Let the error have no \<^verbatim>\<open>getFileLocation\<close> function and a message
  of the form \<open>pre\<close>, \<^verbatim>\<open>". Line "\<close>, the decimal numeral of \<open>N\<close>, \<^verbatim>\<open>" column "\<close>, the
  decimal numeral of \<open>M\<close>, \<open>rest\<close>, with \<open>N\<close> and \<open>M\<close> at least 1 and below \<open>2^53\<close>
  (beyond that \<^verbatim>\<open>parseInt\<close> and the subtraction round), where \<open>rest\<close> does not
  start with a digit and contains neither \<^verbatim>\<open>". Line "\<close> nor \<^verbatim>\<open>" column "\<close> (the code takes
  the last occurrence of each). Then the message of the diagnostic is the name,
  \<^verbatim>\<open>": "\<close>, \<open>pre\<close> and the period, and its range is the single point
  (N - 1, M - 1) to (N - 1, M - 1). For the error named \<^verbatim>\<open>Error\<close> with the message
  \<^verbatim>\<open>Foo error. Line 5 column 3\<close> that is \<^verbatim>\<open>Error: Foo error.\<close> and (4, 2) to (4, 2).
\<close>

theorem line_and_column_point:
  assumes "getFileLocation err = NoAccessor"
    and "message err = pre @ ''. Line '' @ decimal N @ '' column '' @ decimal M @ rest"
    and "1 \<le> N" and "1 \<le> M" and "N < 2 ^ 53" and "M < 2 ^ 53"
    and "rest = [] \<or> \<not> isDigit (hd rest)"
    and "\<not> sublist ''. Line '' rest" and "\<not> sublist '' column '' rest"
  shows "\<exists>d. buildAndSendDiagnosticFromException err n u st
               = st\<lparr>trace := trace st @ [SendDiagnostics u [d]]\<rparr>
           \<and> message' d = name err @ '': '' @ pre @ ''.''
           \<and> range' d = \<lparr>start = \<lparr>line = Num (int N - 1), character = Num (int M - 1)\<rparr>,
                          end' = \<lparr>line = Num (int N - 1), character = Num (int M - 1)\<rparr>\<rparr>"
proof -
  let ?col = "decimal M @ rest"
  let ?cur = "decimal N @ '' column '' @ ?col"
  have dot: "CHR ''.'' \<notin> set (decimal k)" and sp: "CHR '' '' \<notin> set (decimal k)" for k
    by (rule decimal_no_char, simp add: isDigit_def)+
  have full: "name err @ '': '' @ message err = (name err @ '': '' @ pre) @ ''. Line '' @ ?cur"
    by (simp add: assms(2))
  have nl: "\<not> sublist ''. Line '' ?cur"
  proof
    assume "sublist ''. Line '' ?cur"
    then have "sublist ''. Line '' ((decimal N @ '' column '' @ decimal M) @ rest)" by simp
    then have "sublist ''. Line '' rest"
      by (rule sublist_strip[rotated]) (simp add: dot)
    with assms(8) show False by simp
  qed
  have nc: "\<not> sublist '' column '' (''column '' @ ?col)"
  proof
    assume "sublist '' column '' (''column '' @ ?col)"
    then have "sublist '' column '' (''column'' @ CHR '' '' # ?col)" by simp
    then have "sublist '' column '' (CHR '' '' # ?col)"
      by (rule sublist_strip[rotated]) simp
    then have "prefix ''column '' ?col \<or> sublist '' column '' (decimal M @ rest)"
      by (simp add: sublist_Cons_right)
    moreover have "\<not> prefix ''column '' ?col"
    proof
      assume "prefix ''column '' ?col"
      moreover obtain x xs where "decimal M = x # xs"
        using decimal_nonempty[of M] by (cases "decimal M") auto
      moreover from this have "isDigit x" using decimal_digits[of x M] by simp
      ultimately show False by (auto simp: isDigit_def)
    qed
    ultimately have "sublist '' column '' (decimal M @ rest)" by simp
    then have "sublist '' column '' rest"
      by (rule sublist_strip[rotated]) (simp add: sp)
    with assms(9) show False by simp
  qed
  have pl: "parseInt ?cur = Num (int N)"
    by (rule parseInt_decimal[OF _ assms(5)]) (simp add: isDigit_def)
  have "substrFrom ?cur (lastIndexOf ?cur '' column '' + 8) = ?col"
    using nc by (rule column_text_present)
  moreover have "parseInt ?col = Num (int M)"
    using assms(7,6) by (rule parseInt_decimal)
  ultimately have pc:
    "parseInt (substrFrom ?cur (lastIndexOf ?cur '' column '' + 8)) = Num (int M)"
    by simp
  have d: "buildDiagnosticFromException err n
        = \<lparr>severity = Error,
           range' = \<lparr>start = \<lparr>line = Num (int N - 1), character = Num (int M - 1)\<rparr>,
                     end' = \<lparr>line = Num (int N - 1), character = Num (int M - 1)\<rparr>\<rparr>,
           code = name err,
           message' = (name err @ '': '' @ pre) @ ''.'',
           source = ''Composer''\<rparr>"
    unfolding build_at_last_line[OF assms(1) full nl] pl pc
    using assms(3-6) by (simp add: Let_def roundToDouble_exact)
  have "message' (buildDiagnosticFromException err n) = name err @ '': '' @ pre @ ''.''"
    by (simp add: d)
  moreover have "range' (buildDiagnosticFromException err n)
      = \<lparr>start = \<lparr>line = Num (int N - 1), character = Num (int M - 1)\<rparr>,
         end' = \<lparr>line = Num (int N - 1), character = Num (int M - 1)\<rparr>\<rparr>"
    by (simp add: d)
  ultimately show ?thesis using sent_diagnostic[of err n u st] by blast
qed

theorem line_and_column_point_witness:
  "message \<lparr>name = ''Error'', message = ''Foo error. Line 5 column 3'',
            getFileLocation = NoAccessor\<rparr>
     = ''Foo error'' @ ''. Line '' @ decimal 5 @ '' column '' @ decimal 3 @ []
   \<and> (\<exists>d. buildAndSendDiagnosticFromException
          \<lparr>name = ''Error'', message = ''Foo error. Line 5 column 3'',
           getFileLocation = NoAccessor\<rparr>
          9 ''file:///model.cto'' \<lparr>library = (), trace = ([] :: unit event list)\<rparr>
        = \<lparr>library = (), trace = [SendDiagnostics ''file:///model.cto'' [d]]\<rparr>
      \<and> message' d = ''Error: Foo error.''
      \<and> range' d = \<lparr>start = \<lparr>line = Num 4, character = Num 2\<rparr>,
                     end' = \<lparr>line = Num 4, character = Num 2\<rparr>\<rparr>)"
proof -
  have five: "decimal 5 = ''5''" and three: "decimal 3 = ''3''"
    by code_simp+
  let ?e = "\<lparr>name = ''Error'', message = ''Foo error. Line 5 column 3'',
           getFileLocation = NoAccessor\<rparr>"
  have m: "message ?e = ''Foo error'' @ ''. Line '' @ decimal 5 @ '' column '' @ decimal 3 @ []"
    by (simp add: five three)
  have "getFileLocation ?e = NoAccessor" by simp
  from line_and_column_point[OF this m, of 9 "''file:///model.cto''"
      "\<lparr>library = (), trace = ([] :: unit event list)\<rparr>"]
  show ?thesis using m by simp
qed

text \<open>
  The claim as stated gives \<^verbatim>\<open>Foo error.\<close> as the emitted message of its example. The
  truncation is applied to \<^verbatim>\<open>err.name + ": " + err.message\<close>, so the message keeps the
  name in front.
\<close>

theorem line_and_column_point_counterexample:
  "buildAndSendDiagnosticFromException
        \<lparr>name = ''Error'', message = ''Foo error. Line 5 column 3'',
         getFileLocation = NoAccessor\<rparr>
        9 ''file:///model.cto'' \<lparr>library = (), trace = ([] :: unit event list)\<rparr>
      = \<lparr>library = (),
         trace = [SendDiagnostics ''file:///model.cto''
           [\<lparr>severity = Error,
             range' = \<lparr>start = \<lparr>line = Num 4, character = Num 2\<rparr>,
                       end' = \<lparr>line = Num 4, character = Num 2\<rparr>\<rparr>,
             code = ''Error'', message' = ''Error: Foo error.'', source = ''Composer''\<rparr>]]\<rparr>
   \<and> ''Error: Foo error.'' \<noteq> ''Foo error.''"
proof -
  have "buildDiagnosticFromException
          \<lparr>name = ''Error'', message = ''Foo error. Line 5 column 3'',
           getFileLocation = NoAccessor\<rparr> 9
        = \<lparr>severity = Error,
             range' = \<lparr>start = \<lparr>line = Num 4, character = Num 2\<rparr>,
                       end' = \<lparr>line = Num 4, character = Num 2\<rparr>\<rparr>,
             code = ''Error'', message' = ''Error: Foo error.'', source = ''Composer''\<rparr>"
    by (subst build_column_present[where a = "''Error: Foo error''" and b = "''5''"
          and col = "''3''"])
       (simp_all add: sublist_Cons_right parse_eval Let_def)
  then show ?thesis
    by (simp add: sent_diagnostic)
qed

text \<open>
  Claim C4. The claim has the column default to 0 whenever the column text does not
  parse. The code looks for the last \<^verbatim>\<open>" column "\<close> in the text after \<^verbatim>\<open>". Line "\<close> and
  never tests whether it found one (the search for \<^verbatim>\<open>". Line "\<close> is tested against -1):
  with no \<^verbatim>\<open>" column "\<close> the index is -1, and \<^verbatim>\<open>substr(index + 8)\<close> is the line text from
  its index 7 on. For the message \<^verbatim>\<open>Oops. Line 5, col 42\<close>, which has no column text,
  the code parses \<^verbatim>\<open>42\<close> out of the line text \<^verbatim>\<open>5, col 42\<close> and reports column 41, not 0.
\<close>

theorem missing_column_parses_line_text:
  "\<not> sublist '' column '' ''Oops. Line 5, col 42''
   \<and> buildAndSendDiagnosticFromException
        \<lparr>name = ''Error'', message = ''Oops. Line 5, col 42'', getFileLocation = NoAccessor\<rparr>
        10 ''file:///model.cto'' \<lparr>library = (), trace = ([] :: unit event list)\<rparr>
      = \<lparr>library = (),
         trace = [SendDiagnostics ''file:///model.cto''
           [\<lparr>severity = Error,
             range' = \<lparr>start = \<lparr>line = Num 4, character = Num 41\<rparr>,
                       end' = \<lparr>line = Num 4, character = Num 41\<rparr>\<rparr>,
             code = ''Error'', message' = ''Error: Oops.'', source = ''Composer''\<rparr>]]\<rparr>"
proof -
  have "buildDiagnosticFromException
          \<lparr>name = ''Error'', message = ''Oops. Line 5, col 42'',
           getFileLocation = NoAccessor\<rparr> 10
        = \<lparr>severity = Error,
             range' = \<lparr>start = \<lparr>line = Num 4, character = Num 41\<rparr>,
                       end' = \<lparr>line = Num 4, character = Num 41\<rparr>\<rparr>,
             code = ''Error'', message' = ''Error: Oops.'', source = ''Composer''\<rparr>"
    by (subst build_column_absent[where a = "''Error: Oops''" and cur = "''5, col 42''"])
       (simp_all add: sublist_Cons_right parse_eval Let_def)
  then show ?thesis
    by (simp add: sent_diagnostic sublist_Cons_right)
qed

text \<open>
  Claim C7. For a document whose text is \<^verbatim>\<open>null\<close> or empty, \<^verbatim>\<open>validateTextDocument\<close>
  returns the server as it was: the library state is unchanged (no call of
  \<^verbatim>\<open>addModelFile\<close>, \<^verbatim>\<open>createAclFile\<close>, \<^verbatim>\<open>setAclFile\<close> or \<^verbatim>\<open>validate\<close>) and the trace
  has no new event (no diagnostics are published).
\<close>

theorem empty_text_skipped:
  assumes "getText doc = None \<or> getText doc = Some []"
  shows "validateTextDocument lib doc st = st"
  using assms by (auto simp: validateTextDocument_def)

theorem empty_text_skipped_witness:
  "getText \<lparr>uri = ''file:///new.cto'', languageId = ''composer'', getText = Some [],
             lineCount = 1\<rparr> = Some []
   \<and> validateTextDocument (composer_stub (\<lambda>t. None))
        \<lparr>uri = ''file:///new.cto'', languageId = ''composer'', getText = Some [],
         lineCount = 1\<rparr>
        \<lparr>library = \<lparr>modelFiles = [], aclFile = None\<rparr>, trace = []\<rparr>
     = \<lparr>library = \<lparr>modelFiles = [], aclFile = None\<rparr>, trace = []\<rparr>"
  using empty_text_skipped
    [of "\<lparr>uri = ''file:///new.cto'', languageId = ''composer'', getText = Some [],
          lineCount = 1\<rparr>"
        "composer_stub (\<lambda>t. None)"
        "\<lparr>library = \<lparr>modelFiles = [], aclFile = None\<rparr>, trace = []\<rparr>"]
  by simp

text \<open>
  Claim C5. Each of the three validation functions publishes exactly once, for the URI
  of the document it validates (for the existing ACL file, its identifier): the
  notifications after the call are those before it and one more. The list of that
  notification is empty when no library call throws and holds exactly the one
  diagnostic built from the exception when a call throws. The functions return a server
  state whatever the library does: the \<^verbatim>\<open>catch\<close> takes every exception, none leaves
  the function.
\<close>

theorem one_publish_per_validation:
  "published (trace (validateCtoModelFile lib doc st))
     = published (trace st) @
       [(uri doc,
         case fst (addModelFile lib (getText doc) (library st)) of
           None \<Rightarrow> []
         | Some err \<Rightarrow> [buildDiagnosticFromException err (lineCount doc)])]
   \<and> published (trace (validateNewAclModelFile lib doc st))
     = published (trace st) @
       [(uri doc,
         case createAclFile lib (uri doc) (getText doc) (library st) of
           (Inl err, s) \<Rightarrow> [buildDiagnosticFromException err (lineCount doc)]
         | (Inr f, s) \<Rightarrow>
             (case fst (setAclFile lib \<lparr>aclObject = f, aclLineCount = lineCount doc\<rparr> s) of
                None \<Rightarrow> []
              | Some err \<Rightarrow> [buildDiagnosticFromException err (lineCount doc)]))]
   \<and> published (trace (validateExistingAclModelFile lib f st))
     = published (trace st) @
       [(getIdentifier lib (aclObject f),
         case fst (validate lib f (library st)) of
           None \<Rightarrow> []
         | Some err \<Rightarrow> [buildDiagnosticFromException err (aclLineCount f)])]"
proof (intro conjI)
  obtain thrown s where a: "addModelFile lib (getText doc) (library st) = (thrown, s)"
    by (cases "addModelFile lib (getText doc) (library st)")
  show "published (trace (validateCtoModelFile lib doc st))
     = published (trace st) @
       [(uri doc,
         case fst (addModelFile lib (getText doc) (library st)) of
           None \<Rightarrow> []
         | Some err \<Rightarrow> [buildDiagnosticFromException err (lineCount doc)])]"
    by (simp add: validateCtoModelFile_run[OF a] a published_append)
next
  obtain thrown s where v: "validate lib f (library st) = (thrown, s)"
    by (cases "validate lib f (library st)")
  show "published (trace (validateExistingAclModelFile lib f st))
     = published (trace st) @
       [(getIdentifier lib (aclObject f),
         case fst (validate lib f (library st)) of
           None \<Rightarrow> []
         | Some err \<Rightarrow> [buildDiagnosticFromException err (aclLineCount f)])]"
    by (simp add: validateExistingAclModelFile_run[OF v] v published_append)
next
  obtain created s1 where c: "createAclFile lib (uri doc) (getText doc) (library st) = (created, s1)"
    by (cases "createAclFile lib (uri doc) (getText doc) (library st)")
  show "published (trace (validateNewAclModelFile lib doc st))
     = published (trace st) @
       [(uri doc,
         case createAclFile lib (uri doc) (getText doc) (library st) of
           (Inl err, s) \<Rightarrow> [buildDiagnosticFromException err (lineCount doc)]
         | (Inr f, s) \<Rightarrow>
             (case fst (setAclFile lib \<lparr>aclObject = f, aclLineCount = lineCount doc\<rparr> s) of
                None \<Rightarrow> []
              | Some err \<Rightarrow> [buildDiagnosticFromException err (lineCount doc)]))]"
  proof (cases created)
    case (Inl err)
    with c show ?thesis
      by (simp add: validateNewAclModelFile_throws[of lib doc st err s1] published_append)
  next
    case (Inr g)
    obtain thrown s2 where
      t: "setAclFile lib \<lparr>aclObject = g, aclLineCount = lineCount doc\<rparr> s1 = (thrown, s2)"
      by (cases "setAclFile lib \<lparr>aclObject = g, aclLineCount = lineCount doc\<rparr> s1")
    from c Inr have c': "createAclFile lib (uri doc) (getText doc) (library st) = (Inr g, s1)"
      by simp
    show ?thesis
      by (simp add: validateNewAclModelFile_created[OF c' t] c' t published_append)
  qed
qed

text \<open>
  Claim C6. For a document that is not of the permissions kind and has non-empty text,
  \<^verbatim>\<open>validateTextDocument\<close> does, in this order: \<^verbatim>\<open>addModelFile\<close> with the full text, a
  notification for the document's URI, and then, exactly when \<^verbatim>\<open>getAclFile\<close> returns a
  file, \<^verbatim>\<open>validate\<close> on that file and a second notification for the file's identifier.
  Whether the second step runs depends on \<^verbatim>\<open>getAclFile\<close> alone, not on whether
  \<^verbatim>\<open>addModelFile\<close> threw (\<open>thrown\<close>).
\<close>

theorem model_change_revalidates_acl:
  assumes "languageId doc \<noteq> ''composer-acl''"
    and "getText doc = Some txt" and "txt \<noteq> []"
    and "addModelFile lib (Some txt) (library st) = (thrown, s1)"
  shows "trace (validateTextDocument lib doc st)
         = trace st @
           [AddModelFile (Some txt),
            SendDiagnostics (uri doc)
              (case thrown of
                 None \<Rightarrow> []
               | Some err \<Rightarrow> [buildDiagnosticFromException err (lineCount doc)])] @
           (case getAclFile lib s1 of
              None \<Rightarrow> []
            | Some f \<Rightarrow>
                [Validate f,
                 SendDiagnostics (getIdentifier lib (aclObject f))
                   (case fst (validate lib f s1) of
                      None \<Rightarrow> []
                    | Some err \<Rightarrow> [buildDiagnosticFromException err (aclLineCount f)])])"
proof -
  from assms(2,4) have a: "addModelFile lib (getText doc) (library st) = (thrown, s1)"
    by simp
  let ?st1 = "validateCtoModelFile lib doc st"
  have lib1: "library ?st1 = s1"
    by (simp add: validateCtoModelFile_run[OF a])
  have tr1: "trace ?st1 = trace st @
           [AddModelFile (Some txt),
            SendDiagnostics (uri doc)
              (case thrown of
                 None \<Rightarrow> []
               | Some err \<Rightarrow> [buildDiagnosticFromException err (lineCount doc)])]"
    by (simp add: validateCtoModelFile_run[OF a] assms(2))
  show ?thesis
  proof (cases "getAclFile lib s1")
    case None
    with assms(1-3) lib1 tr1 show ?thesis
      by (simp add: validateTextDocument_def)
  next
    case (Some f)
    obtain thrown' s2 where v: "validate lib f (library ?st1) = (thrown', s2)"
      by (cases "validate lib f (library ?st1)")
    from Some assms(1-3) lib1 have
      "validateTextDocument lib doc st = validateExistingAclModelFile lib f ?st1"
      by (simp add: validateTextDocument_def)
    with v lib1 tr1 Some show ?thesis
      by (simp add: validateExistingAclModelFile_run[OF v])
  qed
qed

theorem model_change_revalidates_acl_witness:
  "trace (validateTextDocument
      (composer_stub (\<lambda>t. if t = Some ''asset'' then
         Some \<lparr>name = ''Error'', message = ''bad model'', getFileLocation = Accessor None\<rparr>
         else None))
      \<lparr>uri = ''file:///model.cto'', languageId = ''composer'', getText = Some ''asset'',
       lineCount = 1\<rparr>
      \<lparr>library = \<lparr>modelFiles = [],
                   aclFile = Some \<lparr>aclObject = (''file:///permissions.acl'', Some ''rule''),
                                   aclLineCount = 4\<rparr>\<rparr>,
       trace = []\<rparr>)
   = [AddModelFile (Some ''asset''),
      SendDiagnostics ''file:///model.cto''
        [\<lparr>severity = Error,
          range' = \<lparr>start = \<lparr>line = Num 0, character = Num 0\<rparr>,
                    end' = \<lparr>line = Num 1, character = MAX_VALUE\<rparr>\<rparr>,
          code = ''Error'', message' = ''Error: bad model'', source = ''Composer''\<rparr>],
      Validate \<lparr>aclObject = (''file:///permissions.acl'', Some ''rule''), aclLineCount = 4\<rparr>,
      SendDiagnostics ''file:///permissions.acl'' []]"
  using model_change_revalidates_acl
    [of "\<lparr>uri = ''file:///model.cto'', languageId = ''composer'', getText = Some ''asset'',
          lineCount = 1\<rparr>"
        "''asset''"
        "composer_stub (\<lambda>t. if t = Some ''asset'' then
           Some \<lparr>name = ''Error'', message = ''bad model'', getFileLocation = Accessor None\<rparr>
           else None)"
        "\<lparr>library = \<lparr>modelFiles = [],
                   aclFile = Some \<lparr>aclObject = (''file:///permissions.acl'', Some ''rule''),
                                   aclLineCount = 4\<rparr>\<rparr>,
          trace = []\<rparr>"
        "Some \<lparr>name = ''Error'', message = ''bad model'', getFileLocation = Accessor None\<rparr>"
        "\<lparr>modelFiles = [],
          aclFile = Some \<lparr>aclObject = (''file:///permissions.acl'', Some ''rule''),
                          aclLineCount = 4\<rparr>\<rparr>"]
  by (simp add: composer_stub_def buildDiagnosticFromException_def)







text \<open>
  Claim C10, amended. In every path the message of the diagnostic is a prefix of
  \<^verbatim>\<open>err.name + ": " + err.message\<close>: the whole of it when the error has a
  \<^verbatim>\<open>getFileLocation\<close> function or the text has no \<^verbatim>\<open>". Line "\<close>, and else the text up to and
  including the period of its last \<^verbatim>\<open>". Line "\<close>. It begins with the name followed by
  \<^verbatim>\<open>": "\<close> whenever the error has a \<^verbatim>\<open>getFileLocation\<close> function, or its name does not
  contain \<^verbatim>\<open>". Line "\<close>, or its message contains \<^verbatim>\<open>". Line "\<close>.
\<close>

theorem message_keeps_name:
  "\<exists>d. buildAndSendDiagnosticFromException err n u st
          = st\<lparr>trace := trace st @ [SendDiagnostics u [d]]\<rparr>
      \<and> prefix (message' d) (name err @ '': '' @ message err)
      \<and> (getFileLocation err \<noteq> NoAccessor
          \<or> \<not> sublist ''. Line '' (name err @ '': '' @ message err) \<longrightarrow>
          message' d = name err @ '': '' @ message err)
      \<and> (\<forall>a c. getFileLocation err = NoAccessor
            \<and> name err @ '': '' @ message err = a @ ''. Line '' @ c
            \<and> \<not> sublist ''. Line '' c \<longrightarrow>
          message' d = a @ ''.'')
      \<and> (getFileLocation err \<noteq> NoAccessor
          \<or> \<not> sublist ''. Line '' (name err) \<or> sublist ''. Line '' (message err) \<longrightarrow>
          prefix (name err @ '': '') (message' d))"
proof -
  let ?full = "name err @ '': '' @ message err"
  let ?d = "buildDiagnosticFromException err n"
  have whole: "message' ?d = ?full"
    if "getFileLocation err \<noteq> NoAccessor \<or> \<not> sublist ''. Line '' ?full"
  proof (cases "getFileLocation err")
    case (Accessor loc)
    then show ?thesis by (rule build_structured_message)
  next
    case NoAccessor
    with that have "\<not> sublist ''. Line '' ?full" by simp
    then have "lastIndexOf ?full ''. Line '' = - 1" by (rule lastIndexOf_none)
    with NoAccessor show ?thesis by (simp add: build_default)
  qed
  have cut: "message' ?d = a @ ''.''"
    if "getFileLocation err = NoAccessor" "?full = a @ ''. Line '' @ c"
       "\<not> sublist ''. Line '' c" for a c
    by (simp add: build_at_last_line[OF that] Let_def)
  have pre: "prefix (message' ?d) ?full"
  proof (cases "getFileLocation err \<noteq> NoAccessor \<or> lastIndexOf ?full ''. Line '' = - 1")
    case True
    then have "message' ?d = ?full"
    proof
      assume "getFileLocation err \<noteq> NoAccessor"
      then show ?thesis by (intro whole) simp
    next
      assume i: "lastIndexOf ?full ''. Line '' = - 1"
      show ?thesis
      proof (cases "getFileLocation err")
        case (Accessor loc)
        then show ?thesis by (rule build_structured_message)
      next
        case NoAccessor
        with i show ?thesis by (simp add: build_default)
      qed
    qed
    then show ?thesis by simp
  next
    case False
    then have na: "getFileLocation err = NoAccessor"
      and "lastIndexOf ?full ''. Line '' \<noteq> - 1" by simp_all
    then obtain k where k: "lastIndexOf ?full ''. Line '' = int k"
      using lastIndexOf_prefix by blast
    have "message' ?d = take (Suc k) ?full"
      by (simp add: build_unstructured[OF na k] Let_def del: append.simps)
    then show ?thesis by (simp only: take_is_prefix)
  qed
  have nm: "prefix (name err @ '': '') (message' ?d)"
    if h: "getFileLocation err \<noteq> NoAccessor
           \<or> \<not> sublist ''. Line '' (name err) \<or> sublist ''. Line '' (message err)"
  proof (cases "sublist ''. Line '' (message err)")
    case False
    have "getFileLocation err \<noteq> NoAccessor \<or> \<not> sublist ''. Line '' ?full"
    proof (cases "getFileLocation err = NoAccessor")
      case True
      with h False have "\<not> sublist ''. Line '' (name err)" by simp
      from this False have "\<not> sublist ''. Line '' ?full" by (rule no_straddle)
      then show ?thesis by simp
    next
      case False
      then show ?thesis by simp
    qed
    then have "message' ?d = ?full" by (rule whole)
    then show ?thesis by simp
  next
    case True
    show ?thesis
    proof (cases "getFileLocation err")
      case (Accessor loc)
      then have "message' ?d = ?full" by (rule build_structured_message)
      then show ?thesis by simp
    next
      case NoAccessor
      from True obtain a c where ac: "message err = a @ ''. Line '' @ c"
        unfolding sublist_def by blast
      have ge: "int (length (name err @ '': '' @ a))
              \<le> lastIndexOf ((name err @ '': '' @ a) @ ''. Line '' @ c) ''. Line ''"
        by (rule lastIndexOf_ge)
      then have "lastIndexOf ?full ''. Line '' \<noteq> - 1"
        by (simp add: ac)
      then obtain k where k: "lastIndexOf ?full ''. Line '' = int k"
        using lastIndexOf_prefix by blast
      have m: "message' ?d = take (Suc k) ?full"
        by (simp add: build_unstructured[OF NoAccessor k] Let_def del: append.simps)
      from ge k ac have "length (name err @ '': '') \<le> Suc k" by simp
      then have "prefix (name err @ '': '') (take (Suc k) ((name err @ '': '') @ message err))"
        by (rule prefix_take_append)
      then have "prefix (name err @ '': '') (take (Suc k) ?full)"
        by simp
      with m show ?thesis by simp
    qed
  qed
  from whole cut pre nm sent_diagnostic[of err n u st] show ?thesis by blast
qed

theorem message_keeps_name_witness:
  "(\<exists>d. buildAndSendDiagnosticFromException
          \<lparr>name = ''TypeError'', message = ''x is undefined'',
           getFileLocation = Accessor None\<rparr>
          9 ''file:///model.cto'' \<lparr>library = (), trace = ([] :: unit event list)\<rparr>
        = \<lparr>library = (), trace = [SendDiagnostics ''file:///model.cto'' [d]]\<rparr>
      \<and> message' d = ''TypeError: x is undefined''
      \<and> prefix ''TypeError: '' (message' d))
   \<and> sublist ''. Line '' ''Foo error. Line 5 column 3''
   \<and> \<not> sublist ''. Line '' ''5 column 3''
   \<and> (\<exists>d. buildAndSendDiagnosticFromException
          \<lparr>name = ''Error'', message = ''Foo error. Line 5 column 3'',
           getFileLocation = NoAccessor\<rparr>
          9 ''file:///model.cto'' \<lparr>library = (), trace = ([] :: unit event list)\<rparr>
        = \<lparr>library = (), trace = [SendDiagnostics ''file:///model.cto'' [d]]\<rparr>
      \<and> message' d = ''Error: Foo error.''
      \<and> prefix ''Error: '' (message' d)
      \<and> prefix (message' d) ''Error: Foo error. Line 5 column 3'')"
proof (intro conjI)
  let ?st = "\<lparr>library = (), trace = ([] :: unit event list)\<rparr>"
  let ?e = "\<lparr>name = ''TypeError'', message = ''x is undefined'',
           getFileLocation = Accessor None\<rparr>"
  from message_keeps_name[of ?e 9 "''file:///model.cto''" ?st]
  obtain d where "buildAndSendDiagnosticFromException ?e 9 ''file:///model.cto'' ?st
         = ?st\<lparr>trace := trace ?st @ [SendDiagnostics ''file:///model.cto'' [d]]\<rparr>"
    and "getFileLocation ?e \<noteq> NoAccessor
          \<or> \<not> sublist ''. Line '' (name ?e @ '': '' @ message ?e) \<longrightarrow>
          message' d = name ?e @ '': '' @ message ?e"
    and "getFileLocation ?e \<noteq> NoAccessor
          \<or> \<not> sublist ''. Line '' (name ?e) \<or> sublist ''. Line '' (message ?e) \<longrightarrow>
          prefix (name ?e @ '': '') (message' d)"
    by blast
  then show "\<exists>d. buildAndSendDiagnosticFromException ?e 9 ''file:///model.cto'' ?st
        = \<lparr>library = (), trace = [SendDiagnostics ''file:///model.cto'' [d]]\<rparr>
      \<and> message' d = ''TypeError: x is undefined''
      \<and> prefix ''TypeError: '' (message' d)"
    by auto
next
  show s: "sublist ''. Line '' ''Foo error. Line 5 column 3''"
    by (simp add: sublist_Cons_right)
  show t: "\<not> sublist ''. Line '' ''5 column 3''"
    by (simp add: sublist_Cons_right)
  let ?st = "\<lparr>library = (), trace = ([] :: unit event list)\<rparr>"
  let ?e = "\<lparr>name = ''Error'', message = ''Foo error. Line 5 column 3'',
           getFileLocation = NoAccessor\<rparr>"
  from message_keeps_name[of ?e 9 "''file:///model.cto''" ?st]
  obtain d where d: "buildAndSendDiagnosticFromException ?e 9 ''file:///model.cto'' ?st
         = ?st\<lparr>trace := trace ?st @ [SendDiagnostics ''file:///model.cto'' [d]]\<rparr>"
    and p: "prefix (message' d) (name ?e @ '': '' @ message ?e)"
    and c: "\<forall>a c. getFileLocation ?e = NoAccessor
            \<and> name ?e @ '': '' @ message ?e = a @ ''. Line '' @ c
            \<and> \<not> sublist ''. Line '' c \<longrightarrow>
          message' d = a @ ''.''"
    and m: "getFileLocation ?e \<noteq> NoAccessor
          \<or> \<not> sublist ''. Line '' (name ?e) \<or> sublist ''. Line '' (message ?e) \<longrightarrow>
          prefix (name ?e @ '': '') (message' d)"
    by blast
  from c[rule_format, of "''Error: Foo error''" "''5 column 3''"] t
  have "message' d = ''Error: Foo error.''" by simp
  moreover from m s have "prefix ''Error: '' (message' d)" by simp
  moreover from p have "prefix (message' d) ''Error: Foo error. Line 5 column 3''" by simp
  ultimately show "\<exists>d. buildAndSendDiagnosticFromException ?e
          9 ''file:///model.cto'' ?st
        = \<lparr>library = (), trace = [SendDiagnostics ''file:///model.cto'' [d]]\<rparr>
      \<and> message' d = ''Error: Foo error.''
      \<and> prefix ''Error: '' (message' d)
      \<and> prefix (message' d) ''Error: Foo error. Line 5 column 3''"
    using d by auto
qed

text \<open>
  Without that condition the cut can fall inside the name: the error named
  \<^verbatim>\<open>Parse. Line 2 failed\<close> with the message \<^verbatim>\<open>unexpected token\<close> is reported with the
  message \<^verbatim>\<open>Parse.\<close>, which does not begin with the name and \<^verbatim>\<open>": "\<close>.
\<close>

theorem message_keeps_name_counterexample:
  "buildAndSendDiagnosticFromException
        \<lparr>name = ''Parse. Line 2 failed'', message = ''unexpected token'',
         getFileLocation = NoAccessor\<rparr>
        3 ''file:///model.cto'' \<lparr>library = (), trace = ([] :: unit event list)\<rparr>
      = \<lparr>library = (),
         trace = [SendDiagnostics ''file:///model.cto''
           [\<lparr>severity = Error,
             range' = \<lparr>start = \<lparr>line = Num 1, character = Num 0\<rparr>,
                       end' = \<lparr>line = Num 1, character = Num 0\<rparr>\<rparr>,
             code = ''Parse. Line 2 failed'', message' = ''Parse.'', source = ''Composer''\<rparr>]]\<rparr>
   \<and> \<not> prefix (''Parse. Line 2 failed'' @ '': '') ''Parse.''"
proof -
  have "buildDiagnosticFromException
          \<lparr>name = ''Parse. Line 2 failed'', message = ''unexpected token'',
           getFileLocation = NoAccessor\<rparr> 3
        = \<lparr>severity = Error,
             range' = \<lparr>start = \<lparr>line = Num 1, character = Num 0\<rparr>,
                       end' = \<lparr>line = Num 1, character = Num 0\<rparr>\<rparr>,
             code = ''Parse. Line 2 failed'', message' = ''Parse.'', source = ''Composer''\<rparr>"
    by (subst build_column_absent[where a = "''Parse''"
          and cur = "''2 failed: unexpected token''"])
       (simp_all add: sublist_Cons_right parse_eval Let_def)
  then show ?thesis
    by (simp add: sent_diagnostic)
qed

end
